theory Spec2Isabelle
  imports Complex_Main
begin

section \<open>The Compass component: bearing between two fixes and its 8-point label\<close>

text \<open>
  The component keeps two pieces of state, \<open>direction\<close> and \<open>degrees\<close>, and recomputes
  them from its two properties \<open>busLocation\<close> and \<open>previousLocation\<close> in an effect.

  JavaScript numbers are modelled as real numbers: \<open>Math.sin\<close>, \<open>Math.cos\<close> and
  \<open>Math.PI\<close> are \<^term>\<open>sin\<close>, \<^term>\<open>cos\<close> and \<^term>\<open>pi\<close>, and the arithmetic
  operators are exact. The rounding of IEEE doubles, NaN, the infinities and the sign of
  zero are not represented. \<open>null\<close> and \<open>undefined\<close> are \<^term>\<open>None\<close>.
\<close>

subsection \<open>Numeric primitives of the language\<close>

text \<open>The remainder operator \<open>a % b\<close>: the quotient is truncated towards zero, so the
  result has the sign of the dividend.\<close>

definition js_trunc :: "real \<Rightarrow> int" where
  "js_trunc x = (if 0 \<le> x then \<lfloor>x\<rfloor> else \<lceil>x\<rceil>)"

definition js_rem :: "real \<Rightarrow> real \<Rightarrow> real" where
  "js_rem a b = a - b * of_int (js_trunc (a / b))"

text \<open>\<open>Math.round\<close>: the nearest integer, a tie going to the larger one.\<close>

definition Math_round :: "real \<Rightarrow> real" where
  "Math_round x = of_int \<lfloor>x + 1 / 2\<rfloor>"

text \<open>\<open>Math.atan2(y, x)\<close>: the angle of the point \<open>(x, y)\<close>, in \<open>(-pi, pi]\<close>, and
  \<open>0\<close> at the origin.\<close>

definition Math_atan2 :: "real \<Rightarrow> real \<Rightarrow> real" where
  "Math_atan2 y x =
     (if 0 < x then arctan (y / x)
      else if x < 0 then (if 0 \<le> y then arctan (y / x) + pi else arctan (y / x) - pi)
      else if 0 < y then pi / 2
      else if y < 0 then - (pi / 2)
      else 0)"

text \<open>Reading \<open>xs[i]\<close> with a number as the index: \<open>undefined\<close> unless the number is
  an integer within the array.\<close>

definition array_get :: "'a list \<Rightarrow> real \<Rightarrow> 'a option" where
  "array_get xs i =
     (if i = of_int \<lfloor>i\<rfloor> \<and> 0 \<le> i \<and> i < real (length xs) then Some (xs ! nat \<lfloor>i\<rfloor>)
      else None)"

subsection \<open>Data\<close>

record GeoPoint =
  lat :: real
  lng :: real

record CompassProps =
  busLocation :: "GeoPoint option"
  previousLocation :: "GeoPoint option"

text \<open>The two \<open>useState\<close> cells. \<open>direction\<close> is declared a string; it holds whatever
  \<open>bearingToDirection\<close> returned, which is \<open>undefined\<close> when the array read is out of
  range.\<close>

record CompassState =
  direction :: "string option"
  degrees :: real

definition initial_state :: CompassState where
  "initial_state = \<lparr>direction = Some ''N'', degrees = 0\<rparr>"

subsection \<open>Errors\<close>

text \<open>Reading a property of \<open>null\<close> throws a \<open>TypeError\<close>.\<close>

datatype error = TypeError

definition read_prop :: "(GeoPoint \<Rightarrow> real) \<Rightarrow> GeoPoint option \<Rightarrow> error + real" where
  "read_prop f p = (case p of None \<Rightarrow> Inl TypeError | Some g \<Rightarrow> Inr (f g))"

definition bind_err :: "error + 'a \<Rightarrow> ('a \<Rightarrow> error + 'b) \<Rightarrow> error + 'b" where
  "bind_err m f = (case m of Inl e \<Rightarrow> Inl e | Inr v \<Rightarrow> f v)"

subsection \<open>calculateBearing\<close>

text \<open>Lines 20 to 34 of the function, on the four coordinates it has read.\<close>

definition bearing_of :: "real \<Rightarrow> real \<Rightarrow> real \<Rightarrow> real \<Rightarrow> real" where
  "bearing_of start_lat start_lng end_lat end_lng =
     (let startLat = (start_lat * pi) / 180;
          startLng = (start_lng * pi) / 180;
          endLat = (end_lat * pi) / 180;
          endLng = (end_lng * pi) / 180;
          dLng = endLng - startLng;
          y = sin dLng * cos endLat;
          x = cos startLat * sin endLat - sin startLat * cos endLat * cos dLng;
          bearing = Math_atan2 y x * (180 / pi)
      in js_rem (bearing + 360) 360)"

text \<open>The guard \<open>!start || !end || (start.lat === end.lat && start.lng === end.lng)\<close>
  is evaluated left to right and stops at the first true operand; the properties are
  read only after both null tests have failed.\<close>

definition calculateBearing :: "GeoPoint option \<Rightarrow> GeoPoint option \<Rightarrow> error + real" where
  "calculateBearing start endp =
     (if start = None then Inr 0
      else if endp = None then Inr 0
      else
        bind_err (read_prop lat start) (\<lambda>start_lat.
        bind_err (read_prop lat endp) (\<lambda>end_lat.
        bind_err (read_prop lng start) (\<lambda>start_lng.
        bind_err (read_prop lng endp) (\<lambda>end_lng.
          if start_lat = end_lat \<and> start_lng = end_lng then Inr 0
          else Inr (bearing_of start_lat start_lng end_lat end_lng))))))"

subsection \<open>bearingToDirection\<close>

definition directions :: "string list" where
  "directions = [''N'', ''NE'', ''E'', ''SE'', ''S'', ''SW'', ''W'', ''NW'']"

definition direction_index :: "real \<Rightarrow> real" where
  "direction_index bearing = js_rem (Math_round (bearing / 45)) 8"

definition bearingToDirection :: "real \<Rightarrow> string option" where
  "bearingToDirection bearing = array_get directions (direction_index bearing)"

subsection \<open>The effect that updates the compass\<close>

definition update :: "CompassProps \<Rightarrow> CompassState \<Rightarrow> error + CompassState" where
  "update props st =
     (if busLocation props \<noteq> None \<and> previousLocation props \<noteq> None then
        bind_err (calculateBearing (previousLocation props) (busLocation props)) (\<lambda>bearing.
          Inr (st\<lparr>degrees := bearing, direction := bearingToDirection bearing\<rparr>))
      else Inr st)"

text \<open>A run of the component: the effect fires once for each change of the properties.
  \<open>published\<close> lists the state after each firing.\<close>

fun published :: "CompassState \<Rightarrow> CompassProps list \<Rightarrow> error + CompassState list" where
  "published st [] = Inr []"
| "published st (p # ps) =
     bind_err (update p st) (\<lambda>st'.
     bind_err (published st' ps) (\<lambda>sts. Inr (st' # sts)))"

inductive reachable :: "CompassState \<Rightarrow> bool" where
  reachable_initial: "reachable initial_state"
| reachable_update: "reachable st \<Longrightarrow> update props st = Inr st' \<Longrightarrow> reachable st'"

subsection \<open>The closures of the component, run against its state\<close>

text \<open>
  \<open>calculateBearing\<close>, \<open>bearingToDirection\<close> and the effect are closures created inside
  the component: the properties, the two state cells and their setters \<open>setDegrees\<close> and
  \<open>setDirection\<close> are all in their scope. A closure is run with the properties and the
  current state; it returns a value or throws, and it hands back the state, changed by
  whatever setters it has called.
\<close>

type_synonym 'a closure = "CompassProps \<Rightarrow> CompassState \<Rightarrow> (error + 'a) \<times> CompassState"

definition ret :: "'a \<Rightarrow> 'a closure" where
  "ret v = (\<lambda>props st. (Inr v, st))"

definition throw :: "error \<Rightarrow> 'a closure" where
  "throw e = (\<lambda>props st. (Inl e, st))"

definition and_then :: "'a closure \<Rightarrow> ('a \<Rightarrow> 'b closure) \<Rightarrow> 'b closure" where
  "and_then m f =
     (\<lambda>props st. case m props st of
        (Inl e, st') \<Rightarrow> (Inl e, st')
      | (Inr v, st') \<Rightarrow> f v props st')"

definition setDegrees :: "real \<Rightarrow> unit closure" where
  "setDegrees v = (\<lambda>props st. (Inr (), st\<lparr>degrees := v\<rparr>))"

definition setDirection :: "string option \<Rightarrow> unit closure" where
  "setDirection v = (\<lambda>props st. (Inr (), st\<lparr>direction := v\<rparr>))"

definition get_prop :: "(GeoPoint \<Rightarrow> real) \<Rightarrow> GeoPoint option \<Rightarrow> real closure" where
  "get_prop f p = (case p of None \<Rightarrow> throw TypeError | Some g \<Rightarrow> ret (f g))"

text \<open>The body of \<open>calculateBearing\<close>, lines 14 to 35, statement by statement.\<close>

definition calculateBearing_closure :: "GeoPoint option \<Rightarrow> GeoPoint option \<Rightarrow> real closure" where
  "calculateBearing_closure start endp =
     (if start = None then ret 0
      else if endp = None then ret 0
      else
        and_then (get_prop lat start) (\<lambda>start_lat.
        and_then (get_prop lat endp) (\<lambda>end_lat.
        and_then (get_prop lng start) (\<lambda>start_lng.
        and_then (get_prop lng endp) (\<lambda>end_lng.
          if start_lat = end_lat \<and> start_lng = end_lng then ret 0
          else ret (bearing_of start_lat start_lng end_lat end_lng))))))"

text \<open>The effect, lines 45 to 51: the only place where the setters are called.\<close>

definition effect :: "unit closure" where
  "effect =
     (\<lambda>props st.
        (if busLocation props \<noteq> None \<and> previousLocation props \<noteq> None then
           and_then (calculateBearing_closure (previousLocation props) (busLocation props))
             (\<lambda>bearing.
                and_then (setDegrees bearing) (\<lambda>_. setDirection (bearingToDirection bearing)))
         else ret ()) props st)"

subsection \<open>The specification's formulations\<close>

text \<open>The remainder of the floored division, the mathematical \<open>mod\<close>.\<close>

definition floor_mod :: "real \<Rightarrow> real \<Rightarrow> real" where
  "floor_mod a b = a - b * of_int \<lfloor>a / b\<rfloor>"

text \<open>The forward azimuth as the specification words it: both points in radians, the
  difference of the longitudes, \<open>y\<close>, \<open>x\<close>, the angle \<open>atan2(y, x)\<close> in degrees, and
  \<open>(theta + 360) mod 360\<close>.\<close>

definition radians :: "real \<Rightarrow> real" where
  "radians d = d * pi / 180"

definition to_degrees :: "real \<Rightarrow> real" where
  "to_degrees r = r * 180 / pi"

definition forward_azimuth :: "GeoPoint \<Rightarrow> GeoPoint \<Rightarrow> real" where
  "forward_azimuth s e =
     (let dLng = radians (lng e) - radians (lng s);
          y = sin dLng * cos (radians (lat e));
          x = cos (radians (lat s)) * sin (radians (lat e))
              - sin (radians (lat s)) * cos (radians (lat e)) * cos dLng;
          theta = to_degrees (Math_atan2 y x)
      in floor_mod (theta + 360) 360)"

text \<open>The sector of the label number \<open>k\<close>: the 45 degrees centred on \<open>45 * k\<close>, closed
  on the left and open on the right, taken around the circle.\<close>

definition in_sector :: "nat \<Rightarrow> real \<Rightarrow> bool" where
  "in_sector k b =
     ((45 * real k - 45 / 2 \<le> b \<and> b < 45 * real k + 45 / 2)
      \<or> (45 * real k - 45 / 2 \<le> b - 360 \<and> b - 360 < 45 * real k + 45 / 2))"

section \<open>Properties\<close>

subsection \<open>Range of the angle and of the remainder\<close>

lemma Math_atan2_bounds: "- pi < Math_atan2 y x \<and> Math_atan2 y x \<le> pi"
proof -
  have lo: "- (pi / 2) < arctan (y / x)" and hi: "arctan (y / x) < pi / 2"
    by (rule arctan_lbound, rule arctan_ubound)
  have pos: "0 < pi" by (rule pi_gt_zero)
  consider (right) "0 < x" | (upper) "x < 0" "0 \<le> y" | (lower) "x < 0" "y < 0" | (axis) "x = 0"
    by linarith
  then show ?thesis
  proof cases
    case right
    then have "Math_atan2 y x = arctan (y / x)" by (simp add: Math_atan2_def)
    then show ?thesis using lo hi pos by linarith
  next
    case upper
    then have "y / x \<le> 0" by (simp add: divide_nonneg_neg)
    then have "arctan (y / x) \<le> 0" by simp
    moreover have "Math_atan2 y x = arctan (y / x) + pi" using upper by (simp add: Math_atan2_def)
    ultimately show ?thesis using lo pos by linarith
  next
    case lower
    then have "0 < y / x" by (simp add: divide_neg_neg)
    then have "0 < arctan (y / x)" by simp
    moreover have "Math_atan2 y x = arctan (y / x) - pi" using lower by (simp add: Math_atan2_def)
    ultimately show ?thesis using hi pos by linarith
  next
    case axis
    then have "Math_atan2 y x = pi / 2 \<or> Math_atan2 y x = - (pi / 2) \<or> Math_atan2 y x = 0"
      by (simp add: Math_atan2_def)
    then show ?thesis using pos by linarith
  qed
qed

lemma floor_mod_range:
  assumes "0 < b"
  shows "0 \<le> floor_mod a b \<and> floor_mod a b < b"
proof -
  have "of_int \<lfloor>a / b\<rfloor> \<le> a / b" by (rule of_int_floor_le)
  then have "of_int \<lfloor>a / b\<rfloor> * b \<le> a"
    using assms by (simp only: pos_le_divide_eq)
  then have le: "b * of_int \<lfloor>a / b\<rfloor> \<le> a" by (simp only: mult.commute)
  have "a / b < of_int \<lfloor>a / b\<rfloor> + 1" by linarith
  then have "a < (of_int \<lfloor>a / b\<rfloor> + 1) * b"
    using assms by (simp only: pos_divide_less_eq)
  then have lt: "a < b * of_int \<lfloor>a / b\<rfloor> + b" by (simp add: algebra_simps)
  show ?thesis using le lt by (simp add: floor_mod_def)
qed

lemma js_rem_nonneg:
  assumes "0 \<le> a" and "0 < b"
  shows "js_rem a b = floor_mod a b"
proof -
  have "0 \<le> a / b" using assms by simp
  then show ?thesis by (simp add: js_rem_def js_trunc_def floor_mod_def)
qed

lemma degrees_of_atan2: "- 180 < Math_atan2 y x * (180 / pi) \<and> Math_atan2 y x * (180 / pi) \<le> 180"
proof -
  have pos: "0 < pi" by (rule pi_gt_zero)
  have b: "- pi < Math_atan2 y x" "Math_atan2 y x \<le> pi" using Math_atan2_bounds by auto
  have "Math_atan2 y x * (180 / pi) = Math_atan2 y x / pi * 180" by simp
  moreover have "- 1 < Math_atan2 y x / pi" using b(1) pos by (simp add: pos_less_divide_eq)
  moreover have "Math_atan2 y x / pi \<le> 1" using b(2) pos by (simp add: pos_divide_le_eq)
  ultimately show ?thesis by linarith
qed

lemma normalise_eq: "js_rem (Math_atan2 y x * (180 / pi) + 360) 360 = floor_mod (Math_atan2 y x * (180 / pi) + 360) 360"
proof (rule js_rem_nonneg)
  show "0 \<le> Math_atan2 y x * (180 / pi) + 360"
    using degrees_of_atan2 [of y x] by linarith
  show "(0::real) < 360" by simp
qed

lemma bearing_of_range: "0 \<le> bearing_of a b c d \<and> bearing_of a b c d < 360"
  unfolding bearing_of_def Let_def normalise_eq by (rule floor_mod_range) simp

subsection \<open>calculateBearing\<close>

lemma calculateBearing_Some:
  "calculateBearing (Some s) (Some e) =
     Inr (if lat s = lat e \<and> lng s = lng e then 0 else bearing_of (lat s) (lng s) (lat e) (lng e))"
  by (simp add: calculateBearing_def read_prop_def bind_err_def)

lemma calculateBearing_None: "calculateBearing None e = Inr 0" "calculateBearing s None = Inr 0"
  by (simp_all add: calculateBearing_def)

lemma bearing_of_forward_azimuth:
  "bearing_of (lat s) (lng s) (lat e) (lng e) = forward_azimuth s e"
  unfolding bearing_of_def forward_azimuth_def Let_def radians_def to_degrees_def normalise_eq
  by simp

text \<open>
  Claim C1. For two points that are both present and differ in a coordinate,
  \<open>calculateBearing\<close> returns the forward azimuth as the specification words it:
  the points in radians, \<open>dLng\<close> the difference of the longitudes, \<open>y\<close> and \<open>x\<close> as
  given, \<open>atan2(y, x)\<close> in degrees, and \<open>(theta + 360) mod 360\<close>. The code's
  remainder truncates; it agrees with \<open>mod\<close> because the dividend is never negative.
\<close>

theorem calculateBearing_forward_azimuth:
  assumes "\<not> (lat s = lat e \<and> lng s = lng e)"
  shows "calculateBearing (Some s) (Some e) = Inr (forward_azimuth s e)"
  using assms by (simp only: calculateBearing_Some bearing_of_forward_azimuth if_False)

theorem calculateBearing_forward_azimuth_witness:
  "\<not> (lat \<lparr>lat = 0, lng = 0\<rparr> = lat \<lparr>lat = 0, lng = 1\<rparr> \<and> lng \<lparr>lat = 0, lng = 0\<rparr> = lng \<lparr>lat = 0, lng = 1\<rparr>)
   \<and> calculateBearing (Some \<lparr>lat = 0, lng = 0\<rparr>) (Some \<lparr>lat = 0, lng = 1\<rparr>)
       = Inr (forward_azimuth \<lparr>lat = 0, lng = 0\<rparr> \<lparr>lat = 0, lng = 1\<rparr>)"
proof -
  have h: "\<not> (lat \<lparr>lat = 0, lng = 0\<rparr> = lat \<lparr>lat = 0, lng = 1\<rparr> \<and> lng \<lparr>lat = 0, lng = 0\<rparr> = lng \<lparr>lat = 0, lng = 1\<rparr>)"
    by simp
  show ?thesis using h calculateBearing_forward_azimuth [OF h] by blast
qed

lemma calculateBearing_bounds:
  "\<exists>b. calculateBearing s e = Inr b \<and> 0 \<le> b \<and> b < 360"
proof (cases s)
  case None
  then show ?thesis by (simp add: calculateBearing_None)
next
  case (Some p)
  note sp = this
  show ?thesis
  proof (cases e)
    case None
    then show ?thesis by (simp add: calculateBearing_None)
  next
    case (Some q)
    show ?thesis
      unfolding sp Some calculateBearing_Some
      using bearing_of_range [of "lat p" "lng p" "lat q" "lng q"] by simp
  qed
qed

text \<open>
  Claim C2. Whatever the two inputs are, absent or identical ones included,
  \<open>calculateBearing\<close> returns a number that is at least 0 and less than 360.
\<close>

theorem calculateBearing_range:
  "\<exists>b. calculateBearing s e = Inr b \<and> 0 \<le> b \<and> b < 360"
  by (rule calculateBearing_bounds)

text \<open>
  Claim C3. When either input is absent, or both are present with the same latitude and
  the same longitude, \<open>calculateBearing\<close> returns exactly 0 and throws nothing.
\<close>

theorem calculateBearing_degenerate:
  assumes "s = None \<or> e = None \<or> (\<exists>p q. s = Some p \<and> e = Some q \<and> lat p = lat q \<and> lng p = lng q)"
  shows "calculateBearing s e = Inr 0"
  using assms by (auto simp add: calculateBearing_None calculateBearing_Some)

theorem calculateBearing_degenerate_witness:
  "calculateBearing None (Some \<lparr>lat = 1, lng = 2\<rparr>) = Inr 0
   \<and> calculateBearing (Some \<lparr>lat = 1, lng = 2\<rparr>) None = Inr 0
   \<and> calculateBearing (Some \<lparr>lat = 1, lng = 2\<rparr>) (Some \<lparr>lat = 1, lng = 2\<rparr>) = Inr 0"
proof -
  have a: "calculateBearing None (Some \<lparr>lat = 1, lng = 2\<rparr>) = Inr 0"
    using calculateBearing_degenerate [of None "Some \<lparr>lat = 1, lng = 2\<rparr>"] by simp
  have b: "calculateBearing (Some \<lparr>lat = 1, lng = 2\<rparr>) None = Inr 0"
    using calculateBearing_degenerate [of "Some \<lparr>lat = 1, lng = 2\<rparr>" None] by simp
  have c: "calculateBearing (Some \<lparr>lat = 1, lng = 2\<rparr>) (Some \<lparr>lat = 1, lng = 2\<rparr>) = Inr 0"
    using calculateBearing_degenerate
      [of "Some \<lparr>lat = 1, lng = 2\<rparr>" "Some \<lparr>lat = 1, lng = 2\<rparr>"] by simp
  show ?thesis using a b c by simp
qed

subsection \<open>bearingToDirection\<close>

lemma js_rem_of_int:
  "js_rem (of_int n) 8 = (if 0 \<le> n then of_int (n mod 8) else - of_int ((- n) mod 8))"
proof (cases "0 \<le> n")
  case True
  have "\<lfloor>real_of_int n / 8\<rfloor> = n div 8"
    using floor_divide_of_int_eq [of n 8, where ?'a = real] by simp
  moreover have "0 \<le> real_of_int n / 8" using True by simp
  ultimately have "js_rem (of_int n) 8 = of_int n - 8 * of_int (n div 8)"
    by (simp add: js_rem_def js_trunc_def)
  also have "\<dots> = of_int (n - 8 * (n div 8))" by simp
  also have "n - 8 * (n div 8) = n mod 8" by (simp add: minus_mult_div_eq_mod)
  finally show ?thesis using True by simp
next
  case False
  have "\<lfloor>real_of_int (- n) / 8\<rfloor> = (- n) div 8"
    using floor_divide_of_int_eq [of "- n" 8, where ?'a = real] by simp
  then have "\<lceil>real_of_int n / 8\<rceil> = - ((- n) div 8)"
    by (simp add: ceiling_def)
  moreover have "\<not> 0 \<le> real_of_int n / 8" using False by simp
  ultimately have "js_rem (of_int n) 8 = of_int n + 8 * of_int ((- n) div 8)"
    by (simp add: js_rem_def js_trunc_def)
  also have "\<dots> = - of_int ((- n) - 8 * ((- n) div 8))" by simp
  also have "(- n) - 8 * ((- n) div 8) = (- n) mod 8" by (simp add: minus_mult_div_eq_mod)
  finally show ?thesis using False by simp
qed

lemma array_get_of_int:
  "array_get xs (of_int m) = (if 0 \<le> m \<and> m < int (length xs) then Some (xs ! nat m) else None)"
proof -
  have "(real_of_int m < real (length xs)) = (m < int (length xs))"
    by (metis of_int_less_iff of_int_of_nat_eq)
  then show ?thesis by (simp add: array_get_def)
qed

lemma direction_index_eq:
  "direction_index b =
     (if 0 \<le> \<lfloor>b / 45 + 1 / 2\<rfloor> then of_int (\<lfloor>b / 45 + 1 / 2\<rfloor> mod 8)
      else - of_int ((- \<lfloor>b / 45 + 1 / 2\<rfloor>) mod 8))"
  by (simp only: direction_index_def Math_round_def js_rem_of_int)

lemma bearingToDirection_nonneg:
  assumes "0 \<le> \<lfloor>b / 45 + 1 / 2\<rfloor>"
  shows "bearingToDirection b = Some (directions ! nat (\<lfloor>b / 45 + 1 / 2\<rfloor> mod 8))"
proof -
  have "direction_index b = of_int (\<lfloor>b / 45 + 1 / 2\<rfloor> mod 8)"
    using assms by (simp only: direction_index_eq if_True)
  moreover have "length directions = 8" by (simp add: directions_def)
  ultimately show ?thesis
    by (simp add: bearingToDirection_def array_get_of_int)
qed

lemma bearingToDirection_neg:
  assumes "\<lfloor>b / 45 + 1 / 2\<rfloor> < 0"
  shows "bearingToDirection b = (if 8 dvd \<lfloor>b / 45 + 1 / 2\<rfloor> then Some ''N'' else None)"
proof -
  let ?n = "\<lfloor>b / 45 + 1 / 2\<rfloor>"
  have idx: "direction_index b = of_int (- ((- ?n) mod 8))"
    using assms by (simp add: direction_index_eq)
  have d: "(8 dvd ?n) = ((- ?n) mod 8 = 0)" by (simp add: dvd_eq_mod_eq_0 [symmetric])
  have nn: "0 \<le> (- ?n) mod 8" by simp
  show ?thesis
  proof (cases "8 dvd ?n")
    case True
    then have "direction_index b = of_int 0" using idx d by simp
    then show ?thesis using True
      by (simp only: bearingToDirection_def array_get_of_int) (simp add: directions_def)
  next
    case False
    then have "- ((- ?n) mod 8) < 0" using d nn by linarith
    then show ?thesis using False
      by (simp only: bearingToDirection_def idx array_get_of_int) simp
  qed
qed

lemma round_index_eq: "(\<lfloor>b / 45 + 1 / 2\<rfloor> = n) = (45 * of_int n - 45 / 2 \<le> b \<and> b < 45 * of_int n + 45 / 2)"
proof -
  have "(\<lfloor>b / 45 + 1 / 2\<rfloor> = n) = (of_int n \<le> b / 45 + 1 / 2 \<and> b / 45 + 1 / 2 < of_int n + 1)"
    by (rule floor_eq_iff)
  also have "\<dots> = (45 * of_int n - 45 / 2 \<le> b \<and> b < 45 * of_int n + 45 / 2)"
    by (auto simp add: field_simps)
  finally show ?thesis .
qed

lemma round_index_range:
  assumes "0 \<le> b" and "b < 360"
  shows "0 \<le> \<lfloor>b / 45 + 1 / 2\<rfloor> \<and> \<lfloor>b / 45 + 1 / 2\<rfloor> \<le> 8"
proof -
  have "0 \<le> b / 45 + 1 / 2" using assms by simp
  then have lo: "0 \<le> \<lfloor>b / 45 + 1 / 2\<rfloor>" by (simp only: zero_le_floor)
  have "b / 45 + 1 / 2 < 9" using assms by simp
  then have "\<lfloor>b / 45 + 1 / 2\<rfloor> < 9" by (simp add: floor_less_iff)
  then show ?thesis using lo by simp
qed

lemma distinct_directions: "distinct directions" "length directions = 8"
  by (simp_all add: directions_def)

lemma in_sector_round:
  "in_sector k b = (\<lfloor>b / 45 + 1 / 2\<rfloor> = int k \<or> \<lfloor>b / 45 + 1 / 2\<rfloor> - 8 = int k)"
proof -
  have "(b - 360) / 45 + 1 / 2 = (b / 45 + 1 / 2) - of_int 8" by (simp add: field_simps)
  then have "\<lfloor>(b - 360) / 45 + 1 / 2\<rfloor> = \<lfloor>b / 45 + 1 / 2\<rfloor> - 8"
    by (simp only: floor_diff_of_int)
  then show ?thesis
    using round_index_eq [of b "int k"] round_index_eq [of "b - 360" "int k"]
    by (simp add: in_sector_def)
qed

lemma index_mod_cases:
  fixes n :: int
  assumes "0 \<le> n" and "n \<le> 8" and "k < 8"
  shows "(nat (n mod 8) = k) = (n = int k \<or> n - 8 = int k)"
proof (cases "n = 8")
  case True
  then show ?thesis using assms(3) by auto
next
  case False
  then have "n < 8" using assms(2) by simp
  then have "n mod 8 = n" using assms(1) by simp
  then show ?thesis using assms(1) \<open>n < 8\<close> by auto
qed

text \<open>
  Claim C4. For a bearing that is at least 0 and less than 360, \<open>bearingToDirection\<close>
  returns the entry of \<open>[N, NE, E, SE, S, SW, W, NW]\<close> at \<open>round(bearing / 45) mod 8\<close>;
  that is exactly one of the eight labels; and the label number \<open>k\<close> is returned
  exactly on the 45 degrees from \<open>45 k - 22.5\<close> (included) to \<open>45 k + 22.5\<close>
  (excluded), taken around the circle, so that the eight sectors neither overlap nor leave
  a gap.
\<close>

theorem bearingToDirection_sectors:
  assumes "0 \<le> b" and "b < 360" and "k < 8"
  shows "bearingToDirection b = Some (directions ! (nat \<lfloor>b / 45 + 1 / 2\<rfloor> mod 8))
         \<and> (\<exists>!l. l \<in> set directions \<and> bearingToDirection b = Some l)
         \<and> (bearingToDirection b = Some (directions ! k) \<longleftrightarrow> in_sector k b)"
proof -
  let ?n = "\<lfloor>b / 45 + 1 / 2\<rfloor>"
  have rng: "0 \<le> ?n" "?n \<le> 8" using round_index_range [OF assms(1,2)] by auto
  have val: "bearingToDirection b = Some (directions ! nat (?n mod 8))"
    using rng(1) by (rule bearingToDirection_nonneg)
  have m: "nat (?n mod 8) = nat ?n mod 8" using rng(1) by (simp add: nat_mod_distrib)
  have lt: "nat (?n mod 8) < 8" by simp
  have first: "bearingToDirection b = Some (directions ! (nat ?n mod 8))"
    using val m by simp
  have "directions ! nat (?n mod 8) \<in> set directions"
    using lt by (simp add: distinct_directions)
  then have second: "\<exists>!l. l \<in> set directions \<and> bearingToDirection b = Some l"
    using val by auto
  have "(directions ! nat (?n mod 8) = directions ! k) = (nat (?n mod 8) = k)"
    using lt assms(3) by (simp add: nth_eq_iff_index_eq distinct_directions)
  also have "\<dots> = (?n = int k \<or> ?n - 8 = int k)"
    using rng assms(3) by (rule index_mod_cases)
  finally have third: "(bearingToDirection b = Some (directions ! k)) = in_sector k b"
    using val by (simp add: in_sector_round)
  show ?thesis using first second third by blast
qed

lemma nth_directions:
  "directions ! 0 = ''N''" "directions ! 2 = ''E''" "directions ! 1 = ''NE''"
  by (simp_all add: directions_def)

theorem bearingToDirection_sectors_witness:
  "(0::real) \<le> 100 \<and> (100::real) < 360 \<and> (2::nat) < 8
   \<and> bearingToDirection 100 = Some ''E'' \<and> in_sector 2 100
   \<and> (\<exists>!l. l \<in> set directions \<and> bearingToDirection 100 = Some l)"
proof -
  have r: "\<lfloor>(100::real) / 45 + 1 / 2\<rfloor> = 2" by (simp add: floor_eq_iff)
  have h: "bearingToDirection 100 = Some (directions ! (nat \<lfloor>(100::real) / 45 + 1 / 2\<rfloor> mod 8))
         \<and> (\<exists>!l. l \<in> set directions \<and> bearingToDirection 100 = Some l)
         \<and> (bearingToDirection 100 = Some (directions ! 2) \<longleftrightarrow> in_sector 2 100)"
    by (rule bearingToDirection_sectors) simp_all
  have e: "bearingToDirection 100 = Some ''E''"
    using h [THEN conjunct1] by (simp add: r nth_directions)
  have u: "\<exists>!l. l \<in> set directions \<and> bearingToDirection 100 = Some l"
    using h by (rule conjunct2 [THEN conjunct1])
  have "bearingToDirection 100 = Some (directions ! 2)"
    using e by (simp only: nth_directions)
  then have i: "in_sector 2 100"
    using h by blast
  have n: "(0::real) \<le> 100 \<and> (100::real) < 360 \<and> (2::nat) < 8" by simp
  show ?thesis using n e i u by blast
qed

text \<open>
  Claim C6. A bearing exactly on a sector boundary, \<open>22.5 + 45 k\<close>, is rounded up and
  gets the next label clockwise, \<open>22.5\<close> giving NE; and the bearing 360 gives N.
\<close>

theorem bearingToDirection_boundaries:
  "bearingToDirection (45 / 2 + 45 * real k) = Some (directions ! ((k + 1) mod 8))
   \<and> Math_round (real k + 1 / 2) = real k + 1
   \<and> bearingToDirection (45 / 2) = Some ''NE''
   \<and> bearingToDirection 360 = Some ''N''"
proof -
  have r: "\<lfloor>(45 / 2 + 45 * real k) / 45 + 1 / 2\<rfloor> = int k + 1" for k
  proof -
    have "(45 / 2 + 45 * real k) / 45 + 1 / 2 = of_int (int k + 1)" by (simp add: field_simps)
    then show ?thesis by (simp only: floor_of_int)
  qed
  have a: "bearingToDirection (45 / 2 + 45 * real k) = Some (directions ! ((k + 1) mod 8))" for k
  proof -
    have "0 \<le> \<lfloor>(45 / 2 + 45 * real k) / 45 + 1 / 2\<rfloor>" by (simp add: r)
    then have "bearingToDirection (45 / 2 + 45 * real k)
        = Some (directions ! nat (\<lfloor>(45 / 2 + 45 * real k) / 45 + 1 / 2\<rfloor> mod 8))"
      by (rule bearingToDirection_nonneg)
    moreover have "nat ((int k + 1) mod 8) = (k + 1) mod 8"
      by (simp add: nat_mod_distrib nat_add_distrib)
    ultimately show ?thesis by (simp only: r)
  qed
  have b: "Math_round (real k + 1 / 2) = real k + 1"
  proof -
    have "real k + 1 / 2 + 1 / 2 = of_int (int k + 1)" by simp
    then have "\<lfloor>real k + 1 / 2 + 1 / 2\<rfloor> = int k + 1" by (simp only: floor_of_int)
    then show ?thesis by (simp add: Math_round_def)
  qed
  have c: "bearingToDirection (45 / 2) = Some ''NE''"
    using a [of 0] by (simp add: directions_def)
  have "\<lfloor>(360::real) / 45 + 1 / 2\<rfloor> = 8" by (simp add: floor_eq_iff)
  then have d: "bearingToDirection 360 = Some ''N''"
    using bearingToDirection_nonneg [of 360] by (simp add: nth_directions)
  show ?thesis using a b c d by blast
qed

subsection \<open>Fixed points, totality, and the index outside the range\<close>

lemma bearing_due_east: "bearing_of 0 0 0 1 = 90"
proof -
  have "0 < pi / 180" using pi_gt_zero by simp
  moreover have "pi / 180 < pi" using pi_gt_zero by simp
  ultimately have y: "0 < sin (pi / 180)" by (rule sin_gt_zero)
  then have a: "Math_atan2 (sin (pi / 180)) 0 = pi / 2" by (simp add: Math_atan2_def)
  have "bearing_of 0 0 0 1 = js_rem 450 360"
    by (simp add: bearing_of_def a)
  also have "js_rem 450 360 = 90" by (simp add: js_rem_def js_trunc_def)
  finally show ?thesis .
qed

lemma bearing_due_north: "bearing_of 0 0 1 0 = 0"
proof -
  have "0 < pi / 180" using pi_gt_zero by simp
  moreover have "pi / 180 < pi" using pi_gt_zero by simp
  ultimately have x: "0 < sin (pi / 180)" by (rule sin_gt_zero)
  then have a: "Math_atan2 0 (sin (pi / 180)) = 0" by (simp add: Math_atan2_def)
  have "bearing_of 0 0 1 0 = js_rem 360 360"
    by (simp add: bearing_of_def a)
  also have "js_rem 360 360 = 0" by (simp add: js_rem_def js_trunc_def)
  finally show ?thesis .
qed

text \<open>
  Claim C8. From \<open>(0, 0)\<close> to \<open>(0, 1)\<close>, due east along the equator, the bearing is 90
  and its label is E; from \<open>(0, 0)\<close> to \<open>(1, 0)\<close>, due north, the bearing is 0 and its
  label is N. On real numbers the two values are exact.
\<close>

theorem known_fixed_points:
  "calculateBearing (Some \<lparr>lat = 0, lng = 0\<rparr>) (Some \<lparr>lat = 0, lng = 1\<rparr>) = Inr 90
   \<and> bearingToDirection 90 = Some ''E''
   \<and> calculateBearing (Some \<lparr>lat = 0, lng = 0\<rparr>) (Some \<lparr>lat = 1, lng = 0\<rparr>) = Inr 0
   \<and> bearingToDirection 0 = Some ''N''"
proof -
  have e: "calculateBearing (Some \<lparr>lat = 0, lng = 0\<rparr>) (Some \<lparr>lat = 0, lng = 1\<rparr>) = Inr 90"
    by (simp add: calculateBearing_Some bearing_due_east)
  have n: "calculateBearing (Some \<lparr>lat = 0, lng = 0\<rparr>) (Some \<lparr>lat = 1, lng = 0\<rparr>) = Inr 0"
    by (simp add: calculateBearing_Some bearing_due_north)
  have "\<lfloor>(90::real) / 45 + 1 / 2\<rfloor> = 2" by (simp add: floor_eq_iff)
  then have ce: "bearingToDirection 90 = Some ''E''"
    using bearingToDirection_nonneg [of 90] by (simp add: directions_def)
  have "\<lfloor>(0::real) / 45 + 1 / 2\<rfloor> = 0" by (simp add: floor_eq_iff)
  then have cn: "bearingToDirection 0 = Some ''N''"
    using bearingToDirection_nonneg [of 0] by (simp add: directions_def)
  show ?thesis using e ce n cn by blast
qed

lemma calculateBearing_closure_eq:
  "calculateBearing_closure s e props st = (calculateBearing s e, st)"
  by (cases s; cases e)
    (simp_all add: calculateBearing_closure_def calculateBearing_def get_prop_def read_prop_def
      and_then_def bind_err_def ret_def)

lemma effect_update:
  "effect props st =
     (case update props st of Inl err \<Rightarrow> (Inl err, st) | Inr st' \<Rightarrow> (Inr (), st'))"
proof (cases "busLocation props \<noteq> None \<and> previousLocation props \<noteq> None")
  case True
  obtain b where b: "calculateBearing (previousLocation props) (busLocation props) = Inr b"
    using calculateBearing_bounds by blast
  have "effect props st =
      and_then (calculateBearing_closure (previousLocation props) (busLocation props))
        (\<lambda>bearing. and_then (setDegrees bearing) (\<lambda>_. setDirection (bearingToDirection bearing)))
        props st"
    using True by (simp add: effect_def)
  also have "\<dots> = (Inr (), st\<lparr>degrees := b, direction := bearingToDirection b\<rparr>)"
    by (simp add: and_then_def calculateBearing_closure_eq b setDegrees_def setDirection_def)
  finally have l: "effect props st = (Inr (), st\<lparr>degrees := b, direction := bearingToDirection b\<rparr>)" .
  have "update props st = Inr (st\<lparr>degrees := b, direction := bearingToDirection b\<rparr>)"
    using True by (simp add: update_def bind_err_def b)
  then show ?thesis using l by simp
next
  case False
  then have "effect props st = (Inr (), st)" by (auto simp add: effect_def ret_def)
  moreover have "update props st = Inr st" using False by (auto simp add: update_def)
  ultimately show ?thesis by simp
qed

text \<open>
  Claim C9. Run with any properties and in any state, \<open>calculateBearing\<close> returns a
  number for every pair of inputs, the absent and the identical ones included: it never
  throws, it hands the state back as it was, and another invocation on the same inputs
  returns the same number whatever the properties and the state then are.
\<close>

theorem calculateBearing_pure_total:
  "\<exists>b. calculateBearing_closure s e props st = (Inr b, st)
       \<and> calculateBearing_closure s e props' st' = (Inr b, st')"
proof -
  obtain b where "calculateBearing s e = Inr b"
    using calculateBearing_bounds by blast
  then show ?thesis by (simp add: calculateBearing_closure_eq)
qed

theorem calculateBearing_pure_total_witness:
  "calculateBearing_closure (Some \<lparr>lat = 0, lng = 0\<rparr>) (Some \<lparr>lat = 0, lng = 1\<rparr>)
      \<lparr>busLocation = None, previousLocation = None\<rparr> \<lparr>direction = Some ''S'', degrees = 180\<rparr>
     = (Inr 90, \<lparr>direction = Some ''S'', degrees = 180\<rparr>)
   \<and> calculateBearing_closure (Some \<lparr>lat = 0, lng = 0\<rparr>) (Some \<lparr>lat = 0, lng = 1\<rparr>)
      \<lparr>busLocation = Some \<lparr>lat = 5, lng = 6\<rparr>, previousLocation = Some \<lparr>lat = 7, lng = 8\<rparr>\<rparr>
      initial_state
     = (Inr 90, initial_state)"
proof -
  let ?s = "Some \<lparr>lat = 0, lng = 0\<rparr>" and ?e = "Some \<lparr>lat = 0, lng = 1\<rparr>"
  let ?p = "\<lparr>busLocation = None, previousLocation = None\<rparr>"
  let ?p' = "\<lparr>busLocation = Some \<lparr>lat = 5, lng = 6\<rparr>, previousLocation = Some \<lparr>lat = 7, lng = 8\<rparr>\<rparr>"
  let ?st = "\<lparr>direction = Some ''S'', degrees = 180\<rparr>"
  obtain b where b: "calculateBearing_closure ?s ?e ?p ?st = (Inr b, ?st)"
      "calculateBearing_closure ?s ?e ?p' initial_state = (Inr b, initial_state)"
    using calculateBearing_pure_total [of ?s ?e ?p ?st ?p' initial_state] by blast
  have "calculateBearing_closure ?s ?e ?p ?st = (Inr 90, ?st)"
    by (simp add: calculateBearing_closure_eq calculateBearing_Some bearing_due_east)
  then have "b = 90" using b(1) by simp
  then show ?thesis using b by simp
qed

text \<open>
  Claim C10 as stated: the range \<open>0 \<le> bearing < 360\<close> is necessary for the array read
  to be in bounds, a negative bearing giving a negative index and no label. The bearing
  \<open>-10\<close> is negative, its index is 0 and its label is N.
\<close>

theorem negative_bearing_counterexample:
  "(- 10 :: real) < 0 \<and> \<not> direction_index (- 10) < 0 \<and> bearingToDirection (- 10) = Some ''N''"
proof -
  have r: "\<lfloor>(- 10 :: real) / 45 + 1 / 2\<rfloor> = 0" by (simp add: floor_eq_iff)
  have "direction_index (- 10) = 0" by (simp add: direction_index_eq r)
  moreover have "bearingToDirection (- 10) = Some ''N''"
    using bearingToDirection_nonneg [of "- 10"] by (simp add: r directions_def)
  ultimately show ?thesis by simp
qed

text \<open>
  Claim C10, amended. For a bearing from 0 to 360 (excluded) the index is one of
  \<open>0, ..., 7\<close>, the array read is in bounds and returns a label. The range is sufficient,
  not necessary: a bearing from \<open>-22.5\<close> up to 0 has the index 0 and the label N. For a
  bearing below \<open>-22.5\<close> the index is negative and no label is returned, unless
  \<open>round(bearing / 45)\<close> is a multiple of 8.
\<close>

theorem direction_index_bounds:
  "(0 \<le> b \<and> b < 360 \<longrightarrow>
      (\<exists>i<8. direction_index b = real i \<and> bearingToDirection b = Some (directions ! i)))
   \<and> (- (45 / 2) \<le> b \<and> b < 0 \<longrightarrow>
      direction_index b = 0 \<and> bearingToDirection b = Some ''N'')
   \<and> (b < - (45 / 2) \<and> \<not> 8 dvd \<lfloor>b / 45 + 1 / 2\<rfloor> \<longrightarrow>
      direction_index b < 0 \<and> bearingToDirection b = None)"
proof -
  let ?n = "\<lfloor>b / 45 + 1 / 2\<rfloor>"
  have first: "\<exists>i<8. direction_index b = real i \<and> bearingToDirection b = Some (directions ! i)"
    if "0 \<le> b \<and> b < 360"
  proof -
    have nn: "0 \<le> ?n" using round_index_range that by blast
    have "nat (?n mod 8) < 8" by simp
    moreover have "direction_index b = real (nat (?n mod 8))"
      using nn by (simp add: direction_index_eq)
    moreover have "bearingToDirection b = Some (directions ! nat (?n mod 8))"
      using nn by (rule bearingToDirection_nonneg)
    ultimately show ?thesis by blast
  qed
  have second: "direction_index b = 0 \<and> bearingToDirection b = Some ''N''"
    if "- (45 / 2) \<le> b \<and> b < 0"
  proof -
    have "?n = 0" using that by (simp add: round_index_eq)
    then show ?thesis
      using bearingToDirection_nonneg [of b] by (simp add: direction_index_eq directions_def)
  qed
  have third: "direction_index b < 0 \<and> bearingToDirection b = None"
    if "b < - (45 / 2) \<and> \<not> 8 dvd ?n"
  proof -
    have "b / 45 + 1 / 2 < 0" using that by simp
    then have neg: "?n < 0" by (simp add: floor_less_iff)
    have "(- ?n) mod 8 \<noteq> 0" using that by (simp add: dvd_eq_mod_eq_0 [symmetric])
    moreover have "0 \<le> (- ?n) mod 8" by simp
    ultimately have "0 < (- ?n) mod 8" by linarith
    then have "direction_index b < 0" using neg by (simp add: direction_index_eq)
    moreover have "bearingToDirection b = None"
      using bearingToDirection_neg [OF neg] that by simp
    ultimately show ?thesis by simp
  qed
  show ?thesis using first second third by blast
qed

theorem direction_index_bounds_witness:
  "((0::real) \<le> 10 \<and> (10::real) < 360)
   \<and> (\<exists>i<8. direction_index 10 = real i \<and> bearingToDirection 10 = Some (directions ! i))
   \<and> (- (45 / 2) \<le> (- 10 :: real) \<and> (- 10 :: real) < 0)
   \<and> direction_index (- 10) = 0 \<and> bearingToDirection (- 10) = Some ''N''
   \<and> ((- 45 :: real) < - (45 / 2) \<and> \<not> 8 dvd \<lfloor>(- 45 :: real) / 45 + 1 / 2\<rfloor>)
   \<and> direction_index (- 45) < 0 \<and> bearingToDirection (- 45) = None"
proof -
  have r: "\<lfloor>(- 45 :: real) / 45 + 1 / 2\<rfloor> = - 1" by (simp add: floor_eq_iff)
  have a: "\<exists>i<8. direction_index 10 = real i \<and> bearingToDirection 10 = Some (directions ! i)"
    using direction_index_bounds [of 10] by simp
  have b: "direction_index (- 10) = 0 \<and> bearingToDirection (- 10) = Some ''N''"
    using direction_index_bounds [of "- 10"] by simp
  have c: "direction_index (- 45) < 0 \<and> bearingToDirection (- 45) = None"
    using direction_index_bounds [of "- 45"] by (simp add: r)
  show ?thesis using a b c by (simp add: r)
qed

subsection \<open>The effect: what is published and when\<close>

lemma update_tracking:
  assumes "busLocation p = Some c" and "previousLocation p = Some q"
  shows "\<exists>d. calculateBearing (Some q) (Some c) = Inr d \<and> 0 \<le> d \<and> d < 360
           \<and> update p st = Inr \<lparr>direction = bearingToDirection d, degrees = d\<rparr>"
proof -
  obtain d where d: "calculateBearing (Some q) (Some c) = Inr d" "0 \<le> d" "d < 360"
    using calculateBearing_bounds [of "Some q" "Some c"] by blast
  have "update p st = Inr (st\<lparr>degrees := d, direction := bearingToDirection d\<rparr>)"
    using assms d(1) by (simp add: update_def bind_err_def)
  then show ?thesis using d by auto
qed

lemma update_not_tracking:
  assumes "busLocation p = None \<or> previousLocation p = None"
  shows "update p st = Inr st"
  using assms by (auto simp add: update_def)

lemma reachable_consistent:
  assumes "reachable st"
  shows "0 \<le> degrees st \<and> degrees st < 360 \<and> direction st = bearingToDirection (degrees st)"
  using assms
proof (induction rule: reachable.induct)
  case reachable_initial
  have "\<lfloor>(0::real) / 45 + 1 / 2\<rfloor> = 0" by (simp add: floor_eq_iff)
  then have "bearingToDirection 0 = Some ''N''"
    using bearingToDirection_nonneg [of 0] by (simp add: directions_def)
  then show ?case by (simp add: initial_state_def)
next
  case (reachable_update st props st')
  show ?case
  proof (cases "busLocation props = None \<or> previousLocation props = None")
    case True
    then have "st' = st" using reachable_update.hyps(2) by (simp add: update_not_tracking)
    then show ?thesis using reachable_update.IH by simp
  next
    case False
    then obtain c q where "busLocation props = Some c" "previousLocation props = Some q" by auto
    then obtain d where "0 \<le> d" "d < 360"
        "update props st = Inr \<lparr>direction = bearingToDirection d, degrees = d\<rparr>"
      using update_tracking by blast
    then show ?thesis using reachable_update.hyps(2) by auto
  qed
qed

lemma label_in_sector:
  assumes "0 \<le> b" and "b < 360"
  shows "\<exists>k<8. bearingToDirection b = Some (directions ! k) \<and> in_sector k b"
proof -
  let ?n = "\<lfloor>b / 45 + 1 / 2\<rfloor>"
  have rng: "0 \<le> ?n" "?n \<le> 8" using round_index_range [OF assms] by auto
  have lt: "nat (?n mod 8) < 8" by simp
  have val: "bearingToDirection b = Some (directions ! nat (?n mod 8))"
    using rng(1) by (rule bearingToDirection_nonneg)
  have "?n = int (nat (?n mod 8)) \<or> ?n - 8 = int (nat (?n mod 8))"
    using index_mod_cases [OF rng lt] by simp
  then have "in_sector (nat (?n mod 8)) b" by (simp only: in_sector_round)
  then show ?thesis using lt val by blast
qed

lemma published_tracking:
  assumes "\<forall>p\<in>set ps. busLocation p \<noteq> None \<and> previousLocation p \<noteq> None"
  shows "\<exists>sts. published st ps = Inr sts
           \<and> list_all2 (\<lambda>p s. calculateBearing (previousLocation p) (busLocation p) = Inr (degrees s)
                               \<and> direction s = bearingToDirection (degrees s)) ps sts"
  using assms
proof (induction ps arbitrary: st)
  case Nil
  then show ?case by simp
next
  case (Cons p ps)
  from Cons.prems obtain c q where cq: "busLocation p = Some c" "previousLocation p = Some q"
    by auto
  obtain d where d: "calculateBearing (Some q) (Some c) = Inr d"
      "update p st = Inr \<lparr>direction = bearingToDirection d, degrees = d\<rparr>"
    using update_tracking [OF cq] by blast
  let ?st = "\<lparr>direction = bearingToDirection d, degrees = d\<rparr>"
  from Cons.prems have "\<forall>p\<in>set ps. busLocation p \<noteq> None \<and> previousLocation p \<noteq> None" by simp
  then obtain sts where sts: "published ?st ps = Inr sts"
      "list_all2 (\<lambda>p s. calculateBearing (previousLocation p) (busLocation p) = Inr (degrees s)
                               \<and> direction s = bearingToDirection (degrees s)) ps sts"
    using Cons.IH [of ?st] by blast
  have "published st (p # ps) = Inr (?st # sts)"
    using d(2) sts(1) by (simp add: bind_err_def)
  moreover have "calculateBearing (previousLocation p) (busLocation p) = Inr (degrees ?st)"
    using cq d(1) by simp
  ultimately show ?case using sts(2) by simp
qed

lemma published_not_tracking:
  assumes "\<forall>p\<in>set ps. busLocation p = None \<or> previousLocation p = None"
  shows "published st ps = Inr (replicate (length ps) st)"
  using assms by (induction ps) (simp_all add: update_not_tracking bind_err_def)

text \<open>
  Claim C5. An update with both fixes present publishes the bearing from the previous fix
  to the current one together with its label. In every reachable state, the initial one
  included, \<open>direction\<close> is the label of \<open>degrees\<close>, one of the eight, and
  \<open>degrees\<close> lies in that label's sector. A run of updates that all have both fixes
  publishes one state for each update, computed from that update's own pair.
\<close>

theorem update_publishes:
  "(busLocation p = Some c \<and> previousLocation p = Some q \<longrightarrow>
      (\<exists>d. calculateBearing (Some q) (Some c) = Inr d
          \<and> update p st = Inr \<lparr>direction = bearingToDirection d, degrees = d\<rparr>))
   \<and> (reachable st \<longrightarrow>
        direction st = bearingToDirection (degrees st)
        \<and> (\<exists>k<8. direction st = Some (directions ! k) \<and> in_sector k (degrees st)))
   \<and> ((\<forall>p\<in>set ps. busLocation p \<noteq> None \<and> previousLocation p \<noteq> None) \<longrightarrow>
        (\<exists>sts. published st ps = Inr sts
           \<and> list_all2 (\<lambda>p s. calculateBearing (previousLocation p) (busLocation p) = Inr (degrees s)
                               \<and> direction s = bearingToDirection (degrees s)) ps sts))"
proof (intro conjI impI)
  assume "busLocation p = Some c \<and> previousLocation p = Some q"
  then show "\<exists>d. calculateBearing (Some q) (Some c) = Inr d
          \<and> update p st = Inr \<lparr>direction = bearingToDirection d, degrees = d\<rparr>"
    using update_tracking [of p c q st] by blast
next
  assume "reachable st"
  then show "direction st = bearingToDirection (degrees st)"
    using reachable_consistent by blast
next
  assume "reachable st"
  then have "0 \<le> degrees st" "degrees st < 360" "direction st = bearingToDirection (degrees st)"
    using reachable_consistent by blast+
  then show "\<exists>k<8. direction st = Some (directions ! k) \<and> in_sector k (degrees st)"
    using label_in_sector [of "degrees st"] by simp
next
  assume "\<forall>p\<in>set ps. busLocation p \<noteq> None \<and> previousLocation p \<noteq> None"
  then show "\<exists>sts. published st ps = Inr sts
           \<and> list_all2 (\<lambda>p s. calculateBearing (previousLocation p) (busLocation p) = Inr (degrees s)
                               \<and> direction s = bearingToDirection (degrees s)) ps sts"
    by (rule published_tracking)
qed

text \<open>
  Claim C7. An update in which either fix is absent leaves the state as it was, whether
  that is the initial state or one published before; a run of such updates keeps it
  throughout.
\<close>

theorem update_retains:
  "(busLocation p = None \<or> previousLocation p = None \<longrightarrow> update p st = Inr st)
   \<and> ((\<forall>p\<in>set ps. busLocation p = None \<or> previousLocation p = None) \<longrightarrow>
        published st ps = Inr (replicate (length ps) st))"
  using update_not_tracking published_not_tracking by blast

theorem update_publishes_witness:
  "(busLocation \<lparr>busLocation = Some \<lparr>lat = 0, lng = 1\<rparr>, previousLocation = Some \<lparr>lat = 0, lng = 0\<rparr>\<rparr>
      = Some \<lparr>lat = 0, lng = 1\<rparr>
    \<and> previousLocation \<lparr>busLocation = Some \<lparr>lat = 0, lng = 1\<rparr>, previousLocation = Some \<lparr>lat = 0, lng = 0\<rparr>\<rparr>
      = Some \<lparr>lat = 0, lng = 0\<rparr>)
   \<and> reachable initial_state
   \<and> busLocation \<lparr>busLocation = Some \<lparr>lat = 0, lng = 1\<rparr>, previousLocation = Some \<lparr>lat = 0, lng = 0\<rparr>\<rparr>
        \<noteq> None
   \<and> previousLocation \<lparr>busLocation = Some \<lparr>lat = 0, lng = 1\<rparr>, previousLocation = Some \<lparr>lat = 0, lng = 0\<rparr>\<rparr>
        \<noteq> None
   \<and> (\<exists>d. calculateBearing (Some \<lparr>lat = 0, lng = 0\<rparr>) (Some \<lparr>lat = 0, lng = 1\<rparr>) = Inr d
          \<and> update \<lparr>busLocation = Some \<lparr>lat = 0, lng = 1\<rparr>, previousLocation = Some \<lparr>lat = 0, lng = 0\<rparr>\<rparr>
                initial_state
              = Inr \<lparr>direction = bearingToDirection d, degrees = d\<rparr>)
   \<and> direction initial_state = bearingToDirection (degrees initial_state)
   \<and> (\<exists>sts. published initial_state
                [\<lparr>busLocation = Some \<lparr>lat = 0, lng = 1\<rparr>, previousLocation = Some \<lparr>lat = 0, lng = 0\<rparr>\<rparr>]
              = Inr sts \<and> length sts = 1)"
proof -
  let ?p = "\<lparr>busLocation = Some \<lparr>lat = 0, lng = 1\<rparr>, previousLocation = Some \<lparr>lat = 0, lng = 0\<rparr>\<rparr>"
  have h1: "busLocation ?p = Some \<lparr>lat = 0, lng = 1\<rparr> \<and> previousLocation ?p = Some \<lparr>lat = 0, lng = 0\<rparr>"
    by simp
  have h2: "reachable initial_state" by (rule reachable_initial)
  have h3: "\<forall>p\<in>set [?p]. busLocation p \<noteq> None \<and> previousLocation p \<noteq> None" by simp
  note t = update_publishes [of ?p "\<lparr>lat = 0, lng = 1\<rparr>" "\<lparr>lat = 0, lng = 0\<rparr>" initial_state "[?p]"]
  have c1: "\<exists>d. calculateBearing (Some \<lparr>lat = 0, lng = 0\<rparr>) (Some \<lparr>lat = 0, lng = 1\<rparr>) = Inr d
          \<and> update ?p initial_state = Inr \<lparr>direction = bearingToDirection d, degrees = d\<rparr>"
    using t h1 by blast
  have c2: "direction initial_state = bearingToDirection (degrees initial_state)"
    using t h2 by blast
  obtain sts where s: "published initial_state [?p] = Inr sts"
     "list_all2 (\<lambda>p s. calculateBearing (previousLocation p) (busLocation p) = Inr (degrees s)
                               \<and> direction s = bearingToDirection (degrees s)) [?p] sts"
    using t h3 by blast
  from s(2) have "length sts = 1" by (simp add: list_all2_lengthD [symmetric])
  then have c3: "\<exists>sts. published initial_state [?p] = Inr sts \<and> length sts = 1"
    using s(1) by blast
  have h4: "busLocation ?p \<noteq> None" "previousLocation ?p \<noteq> None" by simp_all
  show ?thesis using h1 h2 h4 c1 c2 c3 by blast
qed

theorem update_retains_witness:
  "(busLocation \<lparr>busLocation = None, previousLocation = Some \<lparr>lat = 1, lng = 2\<rparr>\<rparr> = None
     \<or> previousLocation \<lparr>busLocation = None, previousLocation = Some \<lparr>lat = 1, lng = 2\<rparr>\<rparr> = None)
   \<and> update \<lparr>busLocation = None, previousLocation = Some \<lparr>lat = 1, lng = 2\<rparr>\<rparr>
         \<lparr>direction = Some ''E'', degrees = 90\<rparr>
       = Inr \<lparr>direction = Some ''E'', degrees = 90\<rparr>
   \<and> (busLocation \<lparr>busLocation = Some \<lparr>lat = 1, lng = 2\<rparr>, previousLocation = None\<rparr> = None
     \<or> previousLocation \<lparr>busLocation = Some \<lparr>lat = 1, lng = 2\<rparr>, previousLocation = None\<rparr> = None)
   \<and> published \<lparr>direction = Some ''E'', degrees = 90\<rparr>
         [\<lparr>busLocation = None, previousLocation = Some \<lparr>lat = 1, lng = 2\<rparr>\<rparr>,
          \<lparr>busLocation = Some \<lparr>lat = 1, lng = 2\<rparr>, previousLocation = None\<rparr>]
       = Inr [\<lparr>direction = Some ''E'', degrees = 90\<rparr>, \<lparr>direction = Some ''E'', degrees = 90\<rparr>]"
proof -
  let ?p = "\<lparr>busLocation = None, previousLocation = Some \<lparr>lat = 1, lng = 2\<rparr>\<rparr>"
  let ?q = "\<lparr>busLocation = Some \<lparr>lat = 1, lng = 2\<rparr>, previousLocation = None\<rparr>"
  let ?st = "\<lparr>direction = Some ''E'', degrees = 90\<rparr>"
  note t = update_retains [of ?p ?st "[?p, ?q]"]
  have h1: "busLocation ?p = None \<or> previousLocation ?p = None" by simp
  have h2: "\<forall>p\<in>set [?p, ?q]. busLocation p = None \<or> previousLocation p = None" by simp
  have c1: "update ?p ?st = Inr ?st" using t h1 by blast
  have "published ?st [?p, ?q] = Inr (replicate (length [?p, ?q]) ?st)" using t h2 by blast
  then have c2: "published ?st [?p, ?q] = Inr [?st, ?st]" by (simp add: numeral_2_eq_2)
  have h3: "busLocation ?q = None \<or> previousLocation ?q = None" by simp
  show ?thesis using h1 h3 c1 c2 by blast
qed

end
